theory Spec2Isabelle
  imports Main "HOL-Library.Word" "HOL-Library.Multiset"
begin

section \<open>On-device tensor shapes for debugging (tensorflow/c/eager/c_api_debug.cc)\<close>

subsection \<open>Values\<close>

text \<open>
  \<^verbatim>\<open>tensorflow::int64\<close> is a 64-bit word, read as two's complement by \<open>sint\<close>.
  The C++ \<^verbatim>\<open>int\<close> variables of the file (\<^verbatim>\<open>rank\<close> and the loop counters \<^verbatim>\<open>i\<close>) are
  modelled by \<open>int\<close>, holding values of 32 bits: a counter only moves between \<open>-1\<close> and
  \<^verbatim>\<open>rank\<close>, so none of the increments and decrements can overflow.
\<close>

type_synonym int64 = "64 word"

text \<open>
  Where a wider value becomes an \<^verbatim>\<open>int\<close>, its low 32 bits are kept and read as two's
  complement. That happens to the \<^verbatim>\<open>int64 dim_index\<close> handed to
  \<^verbatim>\<open>xla::Shape::dimensions(int)\<close> at line 139, and to the number of dimensions that
  \<^verbatim>\<open>dimensions_size()\<close> gives to \<^verbatim>\<open>int rank\<close> at line 130.
\<close>

definition int_of_int64 :: "int64 \<Rightarrow> int" where
  "int_of_int64 w = sint (ucast w :: 32 word)"

definition int_of_size :: "nat \<Rightarrow> int" where
  "int_of_size n = sint (word_of_nat n :: 32 word)"

text \<open>
  Modelled from the spec: the class \<^verbatim>\<open>xla::Shape\<close> and the functions of
  \<^verbatim>\<open>xla::ShapeUtil\<close> are declared outside this file. The specification's device shape
  descriptor is either a flat ordered list of dimension sizes plus a layout (a list of
  dimension indices, minor-most first), or a tuple of sub-shapes. Neither the class nor
  this file keeps the layout of an array shape from being unset or from being something
  other than a permutation, and a tuple may have any number of elements, tuples among
  them. The element type is kept as the number of the enumeration value; nothing here
  looks at it except the comparison of two shapes.
\<close>

datatype Shape =
    Array nat "int64 list" "int64 list"
  | Tuple "Shape list"

fun IsTuple :: "Shape \<Rightarrow> bool" where
  "IsTuple (Tuple ts) = True"
| "IsTuple (Array et ds mm) = False"

fun tuple_shapes :: "Shape \<Rightarrow> Shape list" where
  "tuple_shapes (Tuple ts) = ts"
| "tuple_shapes (Array et ds mm) = []"

text \<open>The dimension sizes of a shape; a tuple shape has none of its own.\<close>

fun dimensions :: "Shape \<Rightarrow> int64 list" where
  "dimensions (Array et ds mm) = ds"
| "dimensions (Tuple ts) = []"

text \<open>\<^verbatim>\<open>layout().minor_to_major()\<close>: empty when the layout is not set.\<close>

fun minor_to_major :: "Shape \<Rightarrow> int64 list" where
  "minor_to_major (Array et ds mm) = mm"
| "minor_to_major (Tuple ts) = []"

definition TupleElementCount :: "Shape \<Rightarrow> int" where
  "TupleElementCount shape = int (length (tuple_shapes shape))"

definition GetTupleElementShape :: "Shape \<Rightarrow> nat \<Rightarrow> Shape" where
  "GetTupleElementShape shape index = tuple_shapes shape ! index"

text \<open>
  Modelled from the spec: \<^verbatim>\<open>xla::ShapeUtil::Equal\<close> is not defined in this file; the
  specification calls two sub-shapes accepted by it "structurally equal", which is
  equality of the descriptors.
\<close>

definition Equal :: "Shape \<Rightarrow> Shape \<Rightarrow> bool" where
  "Equal lhs rhs = (lhs = rhs)"

definition dimensions_size :: "Shape \<Rightarrow> int" where
  "dimensions_size shape = int_of_size (length (dimensions shape))"

subsection \<open>Status values and abnormal ends\<close>

datatype Code =
    CANCELLED | UNKNOWN | INVALID_ARGUMENT | DEADLINE_EXCEEDED | NOT_FOUND
  | ALREADY_EXISTS | PERMISSION_DENIED | UNAUTHENTICATED | RESOURCE_EXHAUSTED
  | FAILED_PRECONDITION | ABORTED | OUT_OF_RANGE | UNIMPLEMENTED | INTERNAL
  | UNAVAILABLE | DATA_LOSS

text \<open>
  Modelled from the spec: \<^verbatim>\<open>tensorflow::Status\<close> is declared outside this file. It is
  \<open>OK\<close>, or an error code with its message. The messages built in this file end with
  \<^verbatim>\<open>padded_shape.DebugString()\<close>; the rendering of a shape is not part of this file,
  so the message keeps the shape itself beside the literal text.
\<close>

datatype Status = OK | Error Code string "Shape option"

fun ok :: "Status \<Rightarrow> bool" where
  "ok OK = True"
| "ok (Error c msg sh) = False"

definition InvalidArgument :: "string \<Rightarrow> Shape \<Rightarrow> Status" where
  "InvalidArgument msg shape = Error INVALID_ARGUMENT msg (Some shape)"

text \<open>
  A call either returns or ends abnormally: \<^verbatim>\<open>std::vector::reserve\<close> throws
  \<^verbatim>\<open>std::length_error\<close> when asked for more than \<^verbatim>\<open>max_size()\<close> elements (which a
  negative \<^verbatim>\<open>int\<close> converted to \<^verbatim>\<open>size_t\<close> is), and an indexed read of a shape's
  dimensions or layout outside the stored entries is not a value.
\<close>

datatype Fault = LengthError | OutOfRange

datatype 'a Outcome = Returns 'a | Faults Fault

subsection \<open>The tensor handle\<close>

text \<open>
  Modelled from the spec: \<^verbatim>\<open>tensorflow::TensorHandle\<close> and the devices are declared
  outside this file; the handle is opaque and exposes its rank, its dimension sizes, its
  device and its tensor. Each query gives a status and the value it leaves in its
  out-parameter; the value is only read when the status is OK. The tensor is opaque
  (\<open>'t\<close>): it is only handed to the padded-shape function of an XLA device.
\<close>

datatype 't Device =
    XlaDevice "'t \<Rightarrow> Status \<times> Shape"
  | OtherDevice

text \<open>
  \<^verbatim>\<open>dynamic_cast<tensorflow::XlaDevice*>(device)\<close> followed by
  \<^verbatim>\<open>xla_device->metadata().padded_shape_fn()\<close>: the padded-shape function of an XLA
  device, \<open>None\<close> where the cast gives the null pointer.
\<close>

fun dynamic_cast_XlaDevice :: "'t Device \<Rightarrow> ('t \<Rightarrow> Status \<times> Shape) option" where
  "dynamic_cast_XlaDevice (XlaDevice fn) = Some fn"
| "dynamic_cast_XlaDevice OtherDevice = None"

record 't TensorHandle =
  Tensor :: "Status \<times> 't"
  NumDims :: "Status \<times> int"
  Dim :: "int \<Rightarrow> Status \<times> int64"
  device :: "'t Device"

text \<open>The struct \<^verbatim>\<open>TFE_TensorDebugInfo\<close>: its only field is the vector \<^verbatim>\<open>dev_dims\<close>.\<close>

datatype TFE_TensorDebugInfo = TFE_TensorDebugInfo "int64 list"

subsection \<open>TensorShapeAsVector (lines 31-49)\<close>

text \<open>
  The loop of lines 40-47, from counter \<open>i\<close> with the vector and status built so far.
  A failing \<^verbatim>\<open>Dim(i)\<close> returns the vector as it stands (line 44).
\<close>

function TensorShapeAsVector_loop ::
  "'t TensorHandle \<Rightarrow> int \<Rightarrow> int \<Rightarrow> int64 list \<Rightarrow> Status \<Rightarrow> int64 list \<times> Status" where
  "TensorShapeAsVector_loop handle rank i shape status =
     (if i < rank then
        (case Dim handle i of (status', dim) \<Rightarrow>
           if \<not> ok status' then (shape, status')
           else TensorShapeAsVector_loop handle rank (i + 1) (shape @ [dim]) status')
      else (shape, status))"
  by pat_completeness auto
termination
  by (relation "measure (\<lambda>(handle, rank, i, shape, status). nat (rank - i))") auto

declare TensorShapeAsVector_loop.simps [simp del]

text \<open>
  Line 39 reserves \<^verbatim>\<open>rank\<close> elements: for a negative \<^verbatim>\<open>rank\<close> that is the fault
  \<open>LengthError\<close>, otherwise it changes nothing that is returned.
\<close>

definition TensorShapeAsVector :: "'t TensorHandle \<Rightarrow> (int64 list \<times> Status) Outcome" where
  "TensorShapeAsVector handle =
     (case NumDims handle of (status, rank) \<Rightarrow>
        if \<not> ok status then Returns ([], status)
        else if rank < 0 then Faults LengthError
        else Returns (TensorShapeAsVector_loop handle rank 0 [] status))"

subsection \<open>TensorDebugInfo (lines 60-154)\<close>

text \<open>
  Lines 82-92: the logical shape is read for the log line only. The result is the status
  left in \<^verbatim>\<open>*status\<close> and the line logged, if any: the vector read and the padded shape.
\<close>

type_synonym LogLine = "int64 list \<times> Shape"

definition VlogPaddedShape ::
  "bool \<Rightarrow> 't TensorHandle \<Rightarrow> Shape \<Rightarrow> Status \<Rightarrow> (Status \<times> LogLine list) Outcome" where
  "VlogPaddedShape vlog_is_on handle padded_shape status =
     (if vlog_is_on then
        (case TensorShapeAsVector handle of
           Faults f \<Rightarrow> Faults f
         | Returns (shape_to_log, status') \<Rightarrow>
             if \<not> ok status' then Returns (OK, [])
             else Returns (status', [(shape_to_log, padded_shape)]))
      else Returns (status, []))"

text \<open>
  Lines 94-128: a tuple shape is checked and replaced by its first element.
  \<open>Inl\<close> is the status of an early \<^verbatim>\<open>return nullptr\<close>, \<open>Inr\<close> the value of
  \<^verbatim>\<open>padded_shape\<close> at line 130.
\<close>

definition NormalizeTuple :: "Shape \<Rightarrow> Status + Shape" where
  "NormalizeTuple padded_shape =
     (if IsTuple padded_shape then
        if TupleElementCount padded_shape \<noteq> 2 then
          Inl (InvalidArgument
                 ''XlaTensors should only contain tuples of size 2. Shape: '' padded_shape)
        else
          let shape0 = GetTupleElementShape padded_shape 0;
              shape1 = GetTupleElementShape padded_shape 1
          in if IsTuple shape0 \<or> IsTuple shape1 then
               Inl (InvalidArgument
                      ''XlaTensors should not contain nested tuples. Shape: '' padded_shape)
             else if \<not> Equal shape0 shape1 then
               Inl (InvalidArgument
                      ''Subshapes of XlaTensors should be the same. Shape: '' padded_shape)
             else Inr shape0
      else Inr padded_shape)"

text \<open>
  The indexed reads \<^verbatim>\<open>layout().minor_to_major(i)\<close> and \<^verbatim>\<open>dimensions(index)\<close>: the
  entry at that position when there is one. The file compares no index with a size
  before reading, so a position without an entry is the fault \<open>OutOfRange\<close>. Both
  reads take an \<^verbatim>\<open>int\<close> index.
\<close>

definition entry_at :: "'a list \<Rightarrow> int \<Rightarrow> 'a Outcome" where
  "entry_at xs i =
     (if 0 \<le> i \<and> i < int (length xs) then Returns (xs ! nat i) else Faults OutOfRange)"

text \<open>
  The loop of lines 137-140, from counter \<open>i\<close> with the vector built so far. The
  \<^verbatim>\<open>int64\<close> read from the layout at line 138 is the argument of
  \<^verbatim>\<open>dimensions(int)\<close> at line 139, so the dimension read is the one at its low 32 bits:
  the layout entry \<open>2^32 + 1\<close> reads dimension 1.
\<close>

function dev_dims_loop :: "Shape \<Rightarrow> int \<Rightarrow> int64 list \<Rightarrow> int64 list Outcome" where
  "dev_dims_loop padded_shape i dev_dims =
     (if i \<ge> 0 then
        (case entry_at (minor_to_major padded_shape) i of
           Faults f \<Rightarrow> Faults f
         | Returns dim_index \<Rightarrow>
             (case entry_at (dimensions padded_shape) (int_of_int64 dim_index) of
                Faults f \<Rightarrow> Faults f
              | Returns d \<Rightarrow> dev_dims_loop padded_shape (i - 1) (dev_dims @ [d])))
      else Returns dev_dims)"
  by pat_completeness auto
termination
  by (relation "measure (\<lambda>(padded_shape, i, dev_dims). nat (i + 1))") auto

declare dev_dims_loop.simps [simp del]

text \<open>
  Lines 130-141: the vector \<^verbatim>\<open>dev_dims\<close>. Reserving \<^verbatim>\<open>rank\<close> elements (line 132) fails
  in the way of line 39 when \<^verbatim>\<open>rank\<close> is negative, which takes a shape of \<open>2^31\<close>
  dimensions or more.
\<close>

definition OnDeviceDims :: "Shape \<Rightarrow> int64 list Outcome" where
  "OnDeviceDims padded_shape =
     (let rank = dimensions_size padded_shape in
      if rank < 0 then Faults LengthError
      else if rank = 1 then
        (case entry_at (dimensions padded_shape) 0 of
           Faults f \<Rightarrow> Faults f
         | Returns d \<Rightarrow> Returns [d])
      else dev_dims_loop padded_shape (rank - 1) [])"

text \<open>
  Lines 94-143: what the XLA branch returns for the padded shape, as the pair of the
  returned pointer (\<open>None\<close> for \<^verbatim>\<open>nullptr\<close>) and the status it leaves. The status is
  assigned on every path (lines 99, 111, 117 and 142), so the status on entry is not an
  argument.
\<close>

definition XlaTensorDebugInfo :: "Shape \<Rightarrow> (TFE_TensorDebugInfo option \<times> Status) Outcome" where
  "XlaTensorDebugInfo padded_shape =
     (case NormalizeTuple padded_shape of
        Inl status \<Rightarrow> Returns (None, status)
      | Inr padded_shape' \<Rightarrow>
          (case OnDeviceDims padded_shape' of
             Faults f \<Rightarrow> Faults f
           | Returns dev_dims \<Rightarrow> Returns (Some (TFE_TensorDebugInfo dev_dims), OK)))"

text \<open>
  The whole function. \<open>use_xla\<close> says whether \<^verbatim>\<open>TENSORFLOW_EAGER_USE_XLA\<close> is defined
  (without it lines 69-144 are not compiled), \<open>vlog_is_on\<close> is \<^verbatim>\<open>VLOG_IS_ON(3)\<close>. The
  result is the returned pointer (\<open>None\<close> for \<^verbatim>\<open>nullptr\<close>), the status left in
  \<^verbatim>\<open>*status\<close> and the lines logged.
\<close>

definition TensorDebugInfo ::
  "bool \<Rightarrow> bool \<Rightarrow> 't TensorHandle \<Rightarrow>
     (TFE_TensorDebugInfo option \<times> Status \<times> LogLine list) Outcome" where
  "TensorDebugInfo use_xla vlog_is_on handle =
     (case Tensor handle of (status, tensor) \<Rightarrow>
        if \<not> ok status then Returns (None, status, [])
        else
          (case (if use_xla then dynamic_cast_XlaDevice (device handle) else None) of
             Some shape_fn \<Rightarrow>
               (case shape_fn tensor of (status1, padded_shape) \<Rightarrow>
                  if \<not> ok status1 then Returns (None, status1, [])
                  else
                    (case VlogPaddedShape vlog_is_on handle padded_shape status1 of
                       Faults f \<Rightarrow> Faults f
                     | Returns (status2, logged) \<Rightarrow>
                         (case XlaTensorDebugInfo padded_shape of
                            Faults f \<Rightarrow> Faults f
                          | Returns (result, status3) \<Rightarrow> Returns (result, status3, logged))))
           | None \<Rightarrow>
               (case TensorShapeAsVector handle of
                  Faults f \<Rightarrow> Faults f
                | Returns (dev_dims, status1) \<Rightarrow>
                    if \<not> ok status1 then Returns (None, status1, [])
                    else Returns (Some (TFE_TensorDebugInfo dev_dims), status1, []))))"

subsection \<open>Well-formed layouts and example inputs\<close>

text \<open>
  The layout of an array shape is a permutation when its minor-to-major list holds each
  of the indices \<open>0, \<dots>, R - 1\<close> exactly once, \<open>R\<close> being the rank that line 130 reads.
\<close>

definition minor_to_major_is_permutation :: "Shape \<Rightarrow> bool" where
  "minor_to_major_is_permutation shape =
     (mset (map sint (minor_to_major shape)) = mset (map int [0..<nat (dimensions_size shape)]))"

text \<open>
  Handles used as concrete inputs. A handle on an ordinary device with logical shape
  \<open>[2, 3, 4]\<close>; a handle whose rank lookup fails; a handle of rank 2 whose second
  dimension lookup fails after the first one gave 5; a handle on an XLA device whose
  padded-shape function and rank lookup give the two arguments; a handle on an XLA device
  whose tensor does not resolve; and a handle on an ordinary device whose tensor does not
  resolve although its rank and dimensions are known (as for a tensor held elsewhere).
\<close>

definition host_handle :: "unit TensorHandle" where
  "host_handle =
     \<lparr>Tensor = (OK, ()), NumDims = (OK, 3), Dim = (\<lambda>i. (OK, word_of_int (i + 2))),
      device = OtherDevice\<rparr>"

definition rank_failing_handle :: "unit TensorHandle" where
  "rank_failing_handle =
     \<lparr>Tensor = (OK, ()), NumDims = (Error FAILED_PRECONDITION ''shape unknown'' None, - 1),
      Dim = (\<lambda>i. (OK, 0)), device = OtherDevice\<rparr>"

definition dim_failing_handle :: "unit TensorHandle" where
  "dim_failing_handle =
     \<lparr>Tensor = (OK, ()), NumDims = (OK, 2),
      Dim = (\<lambda>i. if i = 0 then (OK, 5) else (Error UNAVAILABLE ''dimension unknown'' None, 0)),
      device = OtherDevice\<rparr>"

definition xla_handle :: "Status \<times> Shape \<Rightarrow> Status \<times> int \<Rightarrow> unit TensorHandle" where
  "xla_handle padded rank_lookup =
     \<lparr>Tensor = (OK, ()), NumDims = rank_lookup, Dim = (\<lambda>i. (OK, 4)),
      device = XlaDevice (\<lambda>t. padded)\<rparr>"

definition unresolved_handle :: "unit TensorHandle" where
  "unresolved_handle =
     \<lparr>Tensor = (Error INTERNAL ''tensor not resolved'' None, ()), NumDims = (OK, 1),
      Dim = (\<lambda>i. (OK, 4)), device = XlaDevice (\<lambda>t. (OK, Array 0 [4] []))\<rparr>"

definition remote_handle :: "unit TensorHandle" where
  "remote_handle =
     \<lparr>Tensor = (Error INTERNAL ''tensor not available'' None, ()), NumDims = (OK, 2),
      Dim = (\<lambda>i. (OK, 4)), device = OtherDevice\<rparr>"

section \<open>Properties\<close>

subsection \<open>Auxiliary facts\<close>

lemma ok_iff: "ok s \<longleftrightarrow> s = OK"
  by (cases s) simp_all

lemma int_of_size_less: "int_of_size n < 2147483648"
  using sint_lt [of "word_of_nat n :: 32 word"] by (simp add: int_of_size_def)

lemma int_of_size_le: "int_of_size n \<le> int n"
proof -
  have "(word_of_nat n :: 32 word) = word_of_int (int n)" by simp
  then have "int_of_size n = signed_take_bit 31 (int n)"
    by (simp only: int_of_size_def sint_sbintrunc') simp
  moreover have "signed_take_bit 31 (int n) \<le> int n"
    by (simp add: signed_take_bit_int_less_eq_self_iff)
  ultimately show ?thesis by simp
qed

lemma sint_nonneg_uint:
  fixes w :: "64 word"
  assumes "0 \<le> sint w"
  shows "uint w = sint w"
proof (cases "uint w < 2 ^ 63")
  case True
  have "sint w = signed_take_bit 63 (uint w)" by (simp add: sint_uint)
  also have "\<dots> = uint w"
  proof (rule signed_take_bit_int_eq_self)
    show "- (2 ^ 63) \<le> uint w"
      by (rule order_trans [of _ 0]) simp_all
    show "uint w < 2 ^ 63" by (rule True)
  qed
  finally show ?thesis by simp
next
  case False
  then have "2 ^ 63 \<le> uint w" by simp
  then have "signed_take_bit 63 (uint w) \<le> uint w - 2 ^ Suc 63"
    by (rule signed_take_bit_int_less_eq)
  then have a: "signed_take_bit 63 (uint w) \<le> uint w - 18446744073709551616"
    by simp
  have b: "uint w < 18446744073709551616"
    using uint_bounded [of w] by simp
  have c: "sint w = signed_take_bit 63 (uint w)" by (simp add: sint_uint)
  from a b have "signed_take_bit 63 (uint w) < 0" by linarith
  with c assms show ?thesis by linarith
qed

lemma int_of_int64_fits:
  assumes "0 \<le> sint w" and "sint w < 2147483648"
  shows "int_of_int64 w = sint w"
proof -
  have "int_of_int64 w = signed_take_bit 31 (uint w)"
    by (simp add: int_of_int64_def signed_ucast_eq)
  also have "\<dots> = signed_take_bit 31 (sint w)"
    using assms(1) by (simp add: sint_nonneg_uint)
  also have "\<dots> = sint w"
    using assms by (intro signed_take_bit_int_eq_self) simp_all
  finally show ?thesis .
qed

lemma dev_dims_loop_Returns:
  "dev_dims_loop sh i acc = Returns out \<Longrightarrow>
   out = acc @ map (\<lambda>j. dimensions sh ! nat (int_of_int64 (minor_to_major sh ! j)))
                (rev [0..<nat (i + 1)])"
proof (induction sh i acc rule: dev_dims_loop.induct)
  case (1 sh i acc)
  show ?case
  proof (cases "i \<ge> 0")
    case False
    with "1.prems" show ?thesis by (simp add: dev_dims_loop.simps)
  next
    case True
    from True "1.prems" obtain ix where ix: "entry_at (minor_to_major sh) i = Returns ix"
      by (cases "entry_at (minor_to_major sh) i") (simp_all add: dev_dims_loop.simps [of sh i])
    from True "1.prems" ix obtain d
      where d: "entry_at (dimensions sh) (int_of_int64 ix) = Returns d"
      by (cases "entry_at (dimensions sh) (int_of_int64 ix)")
        (simp_all add: dev_dims_loop.simps [of sh i])
    from True "1.prems" ix d have rec: "dev_dims_loop sh (i - 1) (acc @ [d]) = Returns out"
      by (simp add: dev_dims_loop.simps [of sh i])
    from ix have ixv: "ix = minor_to_major sh ! nat i"
      by (simp add: entry_at_def split: if_splits)
    from d have dv: "d = dimensions sh ! nat (int_of_int64 ix)"
      by (simp add: entry_at_def split: if_splits)
    from True have up: "[0..<nat (i + 1)] = [0..<nat i] @ [nat i]"
      by (simp add: nat_add_distrib)
    from "1.IH" [OF True ix d rec] True show ?thesis
      by (simp add: ixv dv up)
  qed
qed

lemma dev_dims_loop_in_range:
  "i < int (length (minor_to_major sh)) \<Longrightarrow>
   (\<forall>j < length (minor_to_major sh).
      0 \<le> int_of_int64 (minor_to_major sh ! j) \<and>
      int_of_int64 (minor_to_major sh ! j) < int (length (dimensions sh))) \<Longrightarrow>
   \<exists>out. dev_dims_loop sh i acc = Returns out"
proof (induction sh i acc rule: dev_dims_loop.induct)
  case (1 sh i acc)
  show ?case
  proof (cases "i \<ge> 0")
    case False
    then show ?thesis by (simp add: dev_dims_loop.simps)
  next
    case True
    with "1.prems"(1) have ix: "entry_at (minor_to_major sh) i = Returns (minor_to_major sh ! nat i)"
      by (simp add: entry_at_def)
    from True "1.prems" have "nat i < length (minor_to_major sh)" by simp
    with "1.prems"(2) have
      "0 \<le> int_of_int64 (minor_to_major sh ! nat i) \<and>
       int_of_int64 (minor_to_major sh ! nat i) < int (length (dimensions sh))"
      by blast
    then have d: "entry_at (dimensions sh) (int_of_int64 (minor_to_major sh ! nat i)) =
        Returns (dimensions sh ! nat (int_of_int64 (minor_to_major sh ! nat i)))"
      by (simp add: entry_at_def)
    from "1.prems"(1) have "i - 1 < int (length (minor_to_major sh))" by simp
    from "1.IH" [OF True ix d this "1.prems"(2)] True ix d show ?thesis
      by (simp add: dev_dims_loop.simps [of sh i])
  qed
qed

lemma dimensions_size_less: "dimensions_size sh < 2147483648"
  by (simp add: dimensions_size_def int_of_size_less)

lemma dimensions_size_le: "dimensions_size sh \<le> int (length (dimensions sh))"
  by (simp add: dimensions_size_def int_of_size_le)

lemma permutation_length:
  "minor_to_major_is_permutation sh \<Longrightarrow>
   length (minor_to_major sh) = nat (dimensions_size sh)"
proof -
  assume "minor_to_major_is_permutation sh"
  then have "size (mset (map sint (minor_to_major sh))) =
      size (mset (map int [0..<nat (dimensions_size sh)]))"
    by (simp add: minor_to_major_is_permutation_def)
  then show ?thesis by simp
qed

lemma permutation_in_range:
  assumes "minor_to_major_is_permutation sh" and "j < length (minor_to_major sh)"
  shows "0 \<le> sint (minor_to_major sh ! j) \<and> sint (minor_to_major sh ! j) < dimensions_size sh"
proof -
  from assms(1) have "set_mset (mset (map sint (minor_to_major sh))) =
      set_mset (mset (map int [0..<nat (dimensions_size sh)]))"
    by (simp add: minor_to_major_is_permutation_def)
  then have eq: "sint ` set (minor_to_major sh) = int ` {0..<nat (dimensions_size sh)}"
    by simp
  from assms(2) have "sint (minor_to_major sh ! j) \<in> sint ` set (minor_to_major sh)"
    by simp
  with eq have "sint (minor_to_major sh ! j) \<in> int ` {0..<nat (dimensions_size sh)}"
    by simp
  then show ?thesis by auto
qed

lemma permutation_narrow:
  assumes "minor_to_major_is_permutation sh" and "j < length (minor_to_major sh)"
  shows "int_of_int64 (minor_to_major sh ! j) = sint (minor_to_major sh ! j)"
proof -
  from permutation_in_range [OF assms] dimensions_size_less [of sh]
  have "0 \<le> sint (minor_to_major sh ! j)" and "sint (minor_to_major sh ! j) < 2147483648"
    by simp_all
  then show ?thesis by (rule int_of_int64_fits)
qed

lemma permutation_loop_returns:
  assumes "minor_to_major_is_permutation sh"
  shows "\<exists>out. dev_dims_loop sh (dimensions_size sh - 1) [] = Returns out"
proof (rule dev_dims_loop_in_range)
  from permutation_length [OF assms]
  show "dimensions_size sh - 1 < int (length (minor_to_major sh))"
    by simp
  show "\<forall>j < length (minor_to_major sh).
      0 \<le> int_of_int64 (minor_to_major sh ! j) \<and>
      int_of_int64 (minor_to_major sh ! j) < int (length (dimensions sh))"
  proof (intro allI impI)
    fix j
    assume j: "j < length (minor_to_major sh)"
    from permutation_in_range [OF assms j] permutation_narrow [OF assms j]
      dimensions_size_le [of sh]
    show "0 \<le> int_of_int64 (minor_to_major sh ! j) \<and>
      int_of_int64 (minor_to_major sh ! j) < int (length (dimensions sh))"
      by simp
  qed
qed

lemma permutation_mset:
  assumes "minor_to_major_is_permutation sh"
    and "dimensions_size sh = int (length (dimensions sh))"
  shows "mset (map (\<lambda>j. dimensions sh ! nat (sint (minor_to_major sh ! j)))
                (rev [0..<length (dimensions sh)])) = mset (dimensions sh)"
proof -
  let ?ds = "dimensions sh" and ?mm = "minor_to_major sh"
  have len: "length ?mm = length ?ds"
    using permutation_length [OF assms(1)] assms(2) by simp
  have perm: "mset (map sint ?mm) = mset (map int [0..<length ?ds])"
    using assms by (simp add: minor_to_major_is_permutation_def)
  have "map (\<lambda>j. ?ds ! nat (sint (?mm ! j))) [0..<length ?ds] =
        map (\<lambda>z. ?ds ! nat z) (map sint (map (\<lambda>j. ?mm ! j) [0..<length ?mm]))"
    by (simp add: len)
  also have "\<dots> = map (\<lambda>z. ?ds ! nat z) (map sint ?mm)"
    by (simp only: map_nth)
  finally have "mset (map (\<lambda>j. ?ds ! nat (sint (?mm ! j))) [0..<length ?ds]) =
        mset (map (\<lambda>z. ?ds ! nat z) (map sint ?mm))"
    by (rule arg_cong)
  also have "\<dots> = image_mset (\<lambda>z. ?ds ! nat z) (mset (map sint ?mm))"
    by (rule mset_map)
  also have "\<dots> = image_mset (\<lambda>z. ?ds ! nat z) (mset (map int [0..<length ?ds]))"
    by (simp only: perm)
  also have "\<dots> = mset (map (\<lambda>z. ?ds ! nat z) (map int [0..<length ?ds]))"
    by (simp only: mset_map)
  also have "\<dots> = mset (map (\<lambda>n. ?ds ! n) [0..<length ?ds])"
    by (simp only: map_map comp_def nat_int)
  also have "\<dots> = mset ?ds"
    by (simp only: map_nth)
  finally show ?thesis
    by (simp add: rev_map [symmetric])
qed

text \<open>The index of line 139 is narrowed: the layout entry \<open>2^32 + 1\<close> reads dimension 1.\<close>

lemma OnDeviceDims_narrowed_index:
  "OnDeviceDims (Array et [2, 3] [4294967297, 0]) = Returns [2, 3]"
  by (simp add: OnDeviceDims_def dimensions_size_def int_of_size_def dev_dims_loop.simps
      entry_at_def int_of_int64_def)

lemma NormalizeTuple_Array: "NormalizeTuple (Array et ds mm) = Inr (Array et ds mm)"
  by (simp add: NormalizeTuple_def)

lemma TensorShapeAsVector_loop_all_ok:
  "(\<forall>j. i \<le> j \<and> j < rank \<longrightarrow> ok (fst (Dim h j))) \<Longrightarrow> ok st \<Longrightarrow>
   TensorShapeAsVector_loop h rank i acc st = (acc @ map (\<lambda>j. snd (Dim h j)) [i..rank - 1], OK)"
proof (induction "nat (rank - i)" arbitrary: i acc st)
  case 0
  then have "\<not> i < rank" by simp
  with "0.prems"(2) show ?case
    by (simp add: TensorShapeAsVector_loop.simps [of h rank i] ok_iff)
next
  case (Suc n)
  then have lt: "i < rank" by simp
  with Suc.prems(1) have oki: "ok (fst (Dim h i))" by simp
  from Suc.hyps(2) have n: "n = nat (rank - (i + 1))" by simp
  have "\<forall>j. i + 1 \<le> j \<and> j < rank \<longrightarrow> ok (fst (Dim h j))"
    using Suc.prems(1) by simp
  from Suc.hyps(1) [OF n this oki]
  have "TensorShapeAsVector_loop h rank (i + 1) (acc @ [snd (Dim h i)]) (fst (Dim h i)) =
        ((acc @ [snd (Dim h i)]) @ map (\<lambda>j. snd (Dim h j)) [i + 1..rank - 1], OK)" .
  moreover from lt have "[i..rank - 1] = i # [i + 1..rank - 1]"
    by (simp add: upto_rec1)
  ultimately show ?case using lt oki
    by (simp add: TensorShapeAsVector_loop.simps [of h rank i] split_beta)
qed

lemma TensorShapeAsVector_loop_fails:
  "i \<le> k \<Longrightarrow> k < rank \<Longrightarrow> (\<forall>j. i \<le> j \<and> j < k \<longrightarrow> ok (fst (Dim h j))) \<Longrightarrow>
   \<not> ok (fst (Dim h k)) \<Longrightarrow>
   TensorShapeAsVector_loop h rank i acc st =
     (acc @ map (\<lambda>j. snd (Dim h j)) [i..k - 1], fst (Dim h k))"
proof (induction "nat (k - i)" arbitrary: i acc st)
  case 0
  then have "i = k" by simp
  with "0.prems" show ?case
    by (simp add: TensorShapeAsVector_loop.simps [of h rank k] split_beta)
next
  case (Suc n)
  then have lt: "i < k" by simp
  with Suc.prems have oki: "ok (fst (Dim h i))" by simp
  from Suc.hyps(2) have n: "n = nat (k - (i + 1))" by simp
  have le: "i + 1 \<le> k" using lt by simp
  have "\<forall>j. i + 1 \<le> j \<and> j < k \<longrightarrow> ok (fst (Dim h j))"
    using Suc.prems(3) by simp
  from Suc.hyps(1) [OF n le Suc.prems(2) this Suc.prems(4)]
  have "TensorShapeAsVector_loop h rank (i + 1) (acc @ [snd (Dim h i)]) (fst (Dim h i)) =
        ((acc @ [snd (Dim h i)]) @ map (\<lambda>j. snd (Dim h j)) [i + 1..k - 1], fst (Dim h k))" .
  moreover from lt have "[i..k - 1] = i # [i + 1..k - 1]"
    by (simp add: upto_rec1)
  ultimately show ?case using lt oki Suc.prems(2)
    by (simp add: TensorShapeAsVector_loop.simps [of h rank i] split_beta)
qed

lemma map_Dim_logical_shape:
  "(\<forall>k < length ds. Dim h (int k) = (OK, ds ! k)) \<Longrightarrow>
   map (\<lambda>j. snd (Dim h j)) [0..int (length ds) - 1] = ds"
proof -
  assume a: "\<forall>k < length ds. Dim h (int k) = (OK, ds ! k)"
  have "[0..int (length ds) - 1] = map int [0..<length ds]"
    by (induction ds rule: rev_induct) (simp_all add: upto_rec2)
  then have "map (\<lambda>j. snd (Dim h j)) [0..int (length ds) - 1] =
             map (\<lambda>k. snd (Dim h (int k))) [0..<length ds]"
    by (simp add: comp_def)
  also have "\<dots> = map (\<lambda>k. ds ! k) [0..<length ds]"
    using a by simp
  also have "\<dots> = ds" by (rule map_nth)
  finally show ?thesis .
qed

lemma NormalizeTuple_Inl: "NormalizeTuple sh = Inl st \<Longrightarrow> \<not> ok st"
  by (auto simp: NormalizeTuple_def InvalidArgument_def Let_def split: if_splits)

lemma XlaTensorDebugInfo_coupling:
  "XlaTensorDebugInfo sh = Returns (r, st) \<Longrightarrow> (r \<noteq> None) = (st = OK)"
  by (auto simp: XlaTensorDebugInfo_def ok_iff split: sum.splits Outcome.splits
      dest: NormalizeTuple_Inl)

lemma TensorShapeAsVector_logical_shape:
  assumes "NumDims h = (OK, int (length ds))"
    and "\<forall>k < length ds. Dim h (int k) = (OK, ds ! k)"
  shows "TensorShapeAsVector h = Returns (ds, OK)"
proof -
  have "\<forall>j. 0 \<le> j \<and> j < int (length ds) \<longrightarrow> ok (fst (Dim h j))"
  proof (intro allI impI)
    fix j :: int
    assume j: "0 \<le> j \<and> j < int (length ds)"
    then have "nat j < length ds" by (simp add: nat_less_iff)
    with assms(2) have "Dim h (int (nat j)) = (OK, ds ! nat j)" by blast
    with j show "ok (fst (Dim h j))" by simp
  qed
  then have "TensorShapeAsVector_loop h (int (length ds)) 0 [] OK =
      ([] @ map (\<lambda>j. snd (Dim h j)) [0..int (length ds) - 1], OK)"
    by (intro TensorShapeAsVector_loop_all_ok) simp_all
  with map_Dim_logical_shape [OF assms(2)] assms(1) show ?thesis
    by (simp add: TensorShapeAsVector_def)
qed

lemma TensorDebugInfo_xla_path:
  assumes "ok (fst (Tensor h))" and "device h = XlaDevice fn"
    and "fn (snd (Tensor h)) = (st, sh)" and "ok st"
    and "vlog_is_on \<longrightarrow> (\<exists>r. TensorShapeAsVector h = Returns r)"
  shows "\<exists>lg. TensorDebugInfo True vlog_is_on h =
           (case XlaTensorDebugInfo sh of
              Faults f \<Rightarrow> Faults f
            | Returns (r, st') \<Rightarrow> Returns (r, st', lg))"
proof (cases vlog_is_on)
  case False
  with assms(1-4) have "TensorDebugInfo True vlog_is_on h =
           (case XlaTensorDebugInfo sh of
              Faults f \<Rightarrow> Faults f
            | Returns (r, st') \<Rightarrow> Returns (r, st', []))"
    by (simp add: TensorDebugInfo_def VlogPaddedShape_def split_beta)
  then show ?thesis by (rule exI)
next
  case True
  with assms(5) obtain s st0 where "TensorShapeAsVector h = Returns (s, st0)"
    by fastforce
  with True assms(1-4) have "TensorDebugInfo True vlog_is_on h =
           (case XlaTensorDebugInfo sh of
              Faults f \<Rightarrow> Faults f
            | Returns (r, st') \<Rightarrow> Returns (r, st', if ok st0 then [(s, sh)] else []))"
    by (simp add: TensorDebugInfo_def VlogPaddedShape_def split_beta)
  then show ?thesis by (rule exI)
qed

lemma TensorShapeAsVector_rank_fails:
  "\<not> ok (fst (NumDims h)) \<Longrightarrow> TensorShapeAsVector h = Returns ([], fst (NumDims h))"
  by (simp add: TensorShapeAsVector_def split_beta)

lemma TensorShapeAsVector_dim_fails:
  assumes "ok (fst (NumDims h))" and "0 \<le> k" and "k < snd (NumDims h)"
    and "\<forall>j. 0 \<le> j \<and> j < k \<longrightarrow> ok (fst (Dim h j))" and "\<not> ok (fst (Dim h k))"
  shows "TensorShapeAsVector h = Returns (map (\<lambda>j. snd (Dim h j)) [0..k - 1], fst (Dim h k))"
proof -
  from assms have "TensorShapeAsVector_loop h (snd (NumDims h)) 0 [] (fst (NumDims h)) =
      ([] @ map (\<lambda>j. snd (Dim h j)) [0..k - 1], fst (Dim h k))"
    by (intro TensorShapeAsVector_loop_fails) simp_all
  with assms(1,2,3) show ?thesis
    by (simp add: TensorShapeAsVector_def split_beta)
qed

lemma TensorDebugInfo_default_path:
  "ok (fst (Tensor h)) \<Longrightarrow> \<not> use_xla \<or> device h = OtherDevice \<Longrightarrow>
   TensorShapeAsVector h = Returns (ds, st) \<Longrightarrow>
   TensorDebugInfo use_xla vlog_is_on h =
     Returns (if ok st then Some (TFE_TensorDebugInfo ds) else None, st, [])"
  by (auto simp: TensorDebugInfo_def split_beta)

subsection \<open>Tuple shapes\<close>

text \<open>
  C1. A padded shape that is a tuple ends the XLA branch with an invalid-argument status
  and no container when its element count is not 2, when one of its two elements is a
  tuple, or when its two elements differ. A tuple of two equal elements that are not
  tuples is replaced by that element, and the branch goes on as it does for the element.
\<close>

theorem tuple_normalization:
  "(IsTuple sh \<and> TupleElementCount sh \<noteq> 2 \<longrightarrow>
      XlaTensorDebugInfo sh =
        Returns (None, Error INVALID_ARGUMENT
                   ''XlaTensors should only contain tuples of size 2. Shape: '' (Some sh))) \<and>
   (IsTuple a \<or> IsTuple b \<longrightarrow>
      XlaTensorDebugInfo (Tuple [a, b]) =
        Returns (None, Error INVALID_ARGUMENT
                   ''XlaTensors should not contain nested tuples. Shape: ''
                   (Some (Tuple [a, b])))) \<and>
   (\<not> IsTuple a \<and> \<not> IsTuple b \<and> a \<noteq> b \<longrightarrow>
      XlaTensorDebugInfo (Tuple [a, b]) =
        Returns (None, Error INVALID_ARGUMENT
                   ''Subshapes of XlaTensors should be the same. Shape: ''
                   (Some (Tuple [a, b])))) \<and>
   (\<not> IsTuple a \<longrightarrow>
      NormalizeTuple (Tuple [a, a]) = Inr a \<and>
      XlaTensorDebugInfo (Tuple [a, a]) = XlaTensorDebugInfo a)"
  by (simp add: XlaTensorDebugInfo_def NormalizeTuple_def TupleElementCount_def
      GetTupleElementShape_def Equal_def InvalidArgument_def)

theorem tuple_normalization_witness:
  "XlaTensorDebugInfo (Tuple [Array 0 [4] [0], Array 0 [4] [0], Array 0 [4] [0]]) =
     Returns (None, Error INVALID_ARGUMENT
        ''XlaTensors should only contain tuples of size 2. Shape: ''
        (Some (Tuple [Array 0 [4] [0], Array 0 [4] [0], Array 0 [4] [0]]))) \<and>
   XlaTensorDebugInfo (Tuple [Tuple [], Array 0 [] []]) =
     Returns (None, Error INVALID_ARGUMENT
        ''XlaTensors should not contain nested tuples. Shape: ''
        (Some (Tuple [Tuple [], Array 0 [] []]))) \<and>
   XlaTensorDebugInfo (Tuple [Array 0 [2, 3] [1, 0], Array 0 [3, 2] [1, 0]]) =
     Returns (None, Error INVALID_ARGUMENT
        ''Subshapes of XlaTensors should be the same. Shape: ''
        (Some (Tuple [Array 0 [2, 3] [1, 0], Array 0 [3, 2] [1, 0]]))) \<and>
   NormalizeTuple (Tuple [Array 0 [4, 4] [1, 0], Array 0 [4, 4] [1, 0]]) =
     Inr (Array 0 [4, 4] [1, 0]) \<and>
   XlaTensorDebugInfo (Tuple [Array 0 [4, 4] [1, 0], Array 0 [4, 4] [1, 0]]) =
     Returns (Some (TFE_TensorDebugInfo [4, 4]), OK)"
proof -
  have x: "XlaTensorDebugInfo (Array 0 [4, 4] [1, 0]) = Returns (Some (TFE_TensorDebugInfo [4, 4]), OK)"
    by (simp add: XlaTensorDebugInfo_def NormalizeTuple_def OnDeviceDims_def dimensions_size_def int_of_size_def
        dev_dims_loop.simps int_of_int64_def entry_at_def)
  from tuple_normalization
         [of "Tuple [Array 0 [4] [0], Array 0 [4] [0], Array 0 [4] [0]]" "Tuple []" "Array 0 [] []"]
       tuple_normalization [of "Tuple []" "Array 0 [2, 3] [1, 0]" "Array 0 [3, 2] [1, 0]"]
       tuple_normalization [of "Tuple []" "Array 0 [4, 4] [1, 0]" "Array 0 [4, 4] [1, 0]"] x
  show ?thesis
    by (simp add: TupleElementCount_def)
qed

subsection \<open>Reordering of the dimensions\<close>

text \<open>
  C2. Take an array shape with \<open>R > 1\<close> dimensions, \<open>R\<close> being the rank that line 130
  reads (so the number of dimensions fits an \<^verbatim>\<open>int\<close>), whose layout is a permutation of
  \<open>0, \<dots>, R - 1\<close>, as the specification's device shape descriptor has it. Lines 130-141
  give the vector that holds, for \<open>i\<close> from \<open>R - 1\<close> down to \<open>0\<close>, the dimension size at
  index \<open>minor_to_major(i)\<close>, that is from the major-most to the minor-most dimension; its
  length is \<open>R\<close>, and its multiset of sizes is that of the shape's dimensions.
\<close>

theorem reorder_permutation:
  assumes "dimensions_size sh = int (length (dimensions sh))"
    and "1 < dimensions_size sh"
    and "minor_to_major_is_permutation sh"
  shows "\<exists>out. OnDeviceDims sh = Returns out \<and>
           out = map (\<lambda>i. dimensions sh ! nat (sint (minor_to_major sh ! i)))
                     (rev [0..<length (dimensions sh)]) \<and>
           length out = length (dimensions sh) \<and>
           mset out = mset (dimensions sh)"
proof -
  let ?f = "\<lambda>i. dimensions sh ! nat (sint (minor_to_major sh ! i))"
  have len: "length (minor_to_major sh) = length (dimensions sh)"
    using permutation_length [OF assms(3)] assms(1) by simp
  from permutation_loop_returns [OF assms(3)]
  obtain out where out: "dev_dims_loop sh (dimensions_size sh - 1) [] = Returns out"
    by blast
  from dev_dims_loop_Returns [OF out] assms(1)
  have "out = map (\<lambda>j. dimensions sh ! nat (int_of_int64 (minor_to_major sh ! j)))
                  (rev [0..<length (dimensions sh)])"
    by simp
  also have "\<dots> = map ?f (rev [0..<length (dimensions sh)])"
    by (rule map_cong) (simp_all add: permutation_narrow [OF assms(3)] len)
  finally have formula: "out = map ?f (rev [0..<length (dimensions sh)])" .
  from assms(2) out have "OnDeviceDims sh = Returns out"
    by (simp add: OnDeviceDims_def)
  moreover from formula have "length out = length (dimensions sh)"
    by simp
  moreover from formula permutation_mset [OF assms(3) assms(1)]
  have "mset out = mset (dimensions sh)"
    by simp
  ultimately show ?thesis using formula by blast
qed

theorem reorder_permutation_witness:
  "OnDeviceDims (Array 0 [2, 3, 4] [0, 1, 2]) = Returns [4, 3, 2] \<and>
   mset [4, 3, 2 :: int64] = mset [2, 3, 4] \<and>
   OnDeviceDims (Array 0 [8, 128] [1, 0]) = Returns [8, 128]"
proof -
  let ?a = "Array 0 [2, 3, 4] [0, 1, 2]" and ?b = "Array 0 [8, 128] [1, 0]"
  have a: "dimensions_size ?a = int (length (dimensions ?a))" "1 < dimensions_size ?a"
      "minor_to_major_is_permutation ?a"
    by (simp_all add: dimensions_size_def int_of_size_def minor_to_major_is_permutation_def
        upt_rec)
  have b: "dimensions_size ?b = int (length (dimensions ?b))" "1 < dimensions_size ?b"
      "minor_to_major_is_permutation ?b"
    by (simp_all add: dimensions_size_def int_of_size_def minor_to_major_is_permutation_def
        upt_rec)
  from reorder_permutation [OF a] reorder_permutation [OF b] show ?thesis
    by (simp add: upt_rec)
qed

subsection \<open>Ordinary devices and the logical shape\<close>

text \<open>
  C3, as the claim states it, for every handle on an ordinary device whose rank and
  dimension lookups succeed: the handle below is on an ordinary device and its lookups
  give the logical shape \<open>[4, 4]\<close>, but \<^verbatim>\<open>handle_->Tensor(&tensor)\<close> fails, and lines
  63-66 return the null pointer with that status before any lookup is made.
\<close>

theorem identity_unresolved_tensor_counterexample:
  "device remote_handle = OtherDevice \<and>
   NumDims remote_handle = (OK, 2) \<and>
   Dim remote_handle 0 = (OK, 4) \<and> Dim remote_handle 1 = (OK, 4) \<and>
   TensorDebugInfo False False remote_handle =
     Returns (None, Error INTERNAL ''tensor not available'' None, [])"
  by (simp add: remote_handle_def TensorDebugInfo_def)

text \<open>
  C3, amended. For a handle whose tensor resolves (line 63 leaves status OK), whose
  device is not an XLA device, whose rank lookup succeeds with \<open>n\<close> and whose lookups of
  the dimensions \<open>0, \<dots>, n - 1\<close> succeed with \<open>ds\<close>, the function succeeds with status
  OK and the container holds \<open>ds\<close> itself, whatever the build and the logging level.
\<close>

theorem identity_on_ordinary_devices:
  assumes "ok (fst (Tensor h))"
    and "device h = OtherDevice"
    and "NumDims h = (OK, int (length ds))"
    and "\<forall>k < length ds. Dim h (int k) = (OK, ds ! k)"
  shows "TensorShapeAsVector h = Returns (ds, OK) \<and>
         TensorDebugInfo use_xla vlog_is_on h = Returns (Some (TFE_TensorDebugInfo ds), OK, [])"
proof -
  have t: "TensorShapeAsVector h = Returns (ds, OK)"
    using assms(3,4) by (rule TensorShapeAsVector_logical_shape)
  with assms(1,2) show ?thesis
    by (simp add: TensorDebugInfo_default_path)
qed

theorem identity_on_ordinary_devices_witness:
  "TensorDebugInfo True True host_handle = Returns (Some (TFE_TensorDebugInfo [2, 3, 4]), OK, [])"
proof -
  have "\<forall>k < length [2, 3, 4 :: int64]. Dim host_handle (int k) = (OK, [2, 3, 4] ! k)"
    by (simp add: host_handle_def less_Suc_eq numeral_3_eq_3)
  from identity_on_ordinary_devices [of host_handle "[2, 3, 4]" True True, OF _ _ _ this]
  show ?thesis
    by (simp add: host_handle_def)
qed

text \<open>
  C4, as the claim states it: on the handle of rank 2 whose lookup of dimension 0 gives 5
  and whose lookup of dimension 1 fails, \<^verbatim>\<open>TensorShapeAsVector\<close> returns the failing
  status together with the vector \<open>[5]\<close>, which is not empty.
\<close>

theorem logical_shape_reader_partial_counterexample:
  "\<not> ok (fst (Dim dim_failing_handle 1)) \<and>
   TensorShapeAsVector dim_failing_handle =
     Returns ([5], Error UNAVAILABLE ''dimension unknown'' None) \<and>
   [5 :: int64] \<noteq> []"
  by (simp add: dim_failing_handle_def TensorShapeAsVector_def TensorShapeAsVector_loop.simps)

text \<open>
  C4, amended. When the rank lookup fails, \<^verbatim>\<open>TensorShapeAsVector\<close> returns its status,
  which is not OK, and the empty vector. When the rank lookup succeeds and the lookup of
  dimension \<open>k\<close> is the first to fail, it returns the status of that lookup, which is not
  OK, and the vector of the \<open>k\<close> dimensions \<open>0, \<dots>, k - 1\<close> read before it, which is
  empty only for \<open>k = 0\<close>.
\<close>

theorem logical_shape_reader_failure:
  "(\<not> ok (fst (NumDims h)) \<longrightarrow>
      TensorShapeAsVector h = Returns ([], fst (NumDims h))) \<and>
   (ok (fst (NumDims h)) \<and> 0 \<le> k \<and> k < snd (NumDims h) \<and>
    (\<forall>j. 0 \<le> j \<and> j < k \<longrightarrow> ok (fst (Dim h j))) \<and> \<not> ok (fst (Dim h k)) \<longrightarrow>
      TensorShapeAsVector h = Returns (map (\<lambda>j. snd (Dim h j)) [0..k - 1], fst (Dim h k)) \<and>
      length (map (\<lambda>j. snd (Dim h j)) [0..k - 1]) = nat k)"
proof (intro conjI impI)
  assume "\<not> ok (fst (NumDims h))"
  then show "TensorShapeAsVector h = Returns ([], fst (NumDims h))"
    by (rule TensorShapeAsVector_rank_fails)
next
  assume a: "ok (fst (NumDims h)) \<and> 0 \<le> k \<and> k < snd (NumDims h) \<and>
    (\<forall>j. 0 \<le> j \<and> j < k \<longrightarrow> ok (fst (Dim h j))) \<and> \<not> ok (fst (Dim h k))"
  then show "TensorShapeAsVector h = Returns (map (\<lambda>j. snd (Dim h j)) [0..k - 1], fst (Dim h k))"
    by (intro TensorShapeAsVector_dim_fails) simp_all
next
  assume a: "ok (fst (NumDims h)) \<and> 0 \<le> k \<and> k < snd (NumDims h) \<and>
    (\<forall>j. 0 \<le> j \<and> j < k \<longrightarrow> ok (fst (Dim h j))) \<and> \<not> ok (fst (Dim h k))"
  then show "length (map (\<lambda>j. snd (Dim h j)) [0..k - 1]) = nat k"
    by simp
qed

theorem logical_shape_reader_failure_witness:
  "TensorShapeAsVector rank_failing_handle =
     Returns ([], Error FAILED_PRECONDITION ''shape unknown'' None) \<and>
   TensorShapeAsVector dim_failing_handle =
     Returns ([5], Error UNAVAILABLE ''dimension unknown'' None)"
proof -
  have u: "[0..(0::int)] = [0]" by (simp add: upto_rec1)
  from logical_shape_reader_failure [of rank_failing_handle 0]
       logical_shape_reader_failure [of dim_failing_handle 1] u
  show ?thesis
    by (simp add: rank_failing_handle_def dim_failing_handle_def)
qed

subsection \<open>The lookup made for the log line\<close>

text \<open>
  C5. Take two handles on the same XLA device with the same tensor, one whose
  logical-shape lookup fails and one whose lookup succeeds. With \<^verbatim>\<open>VLOG_IS_ON(3)\<close>, the
  failing lookup leaves status OK behind and logs nothing (lines 84-86); the two runs
  return the same pointer and the same status; and when the run with the successful
  lookup returns a container with status OK, the run with the failing lookup returns the
  same container with status OK.
\<close>

theorem logging_noninterference:
  assumes "Tensor hf = Tensor hs" and "device hf = device hs" and "device hs = XlaDevice fn"
    and "TensorShapeAsVector hf = Returns (sf, stf)" and "\<not> ok stf"
    and "TensorShapeAsVector hs = Returns (ss, sts)" and "ok sts"
  shows "VlogPaddedShape True hf sh st0 = Returns (OK, []) \<and>
         map_Outcome (\<lambda>(r, st, lg). (r, st)) (TensorDebugInfo True True hf) =
         map_Outcome (\<lambda>(r, st, lg). (r, st)) (TensorDebugInfo True True hs) \<and>
         (\<forall>c st lg. TensorDebugInfo True True hs = Returns (Some c, st, lg) \<longrightarrow>
            st = OK \<and> TensorDebugInfo True True hf = Returns (Some c, OK, []))"
proof (intro conjI)
  from assms(4,5) show "VlogPaddedShape True hf sh st0 = Returns (OK, [])"
    by (simp add: VlogPaddedShape_def)
next
  from assms show "map_Outcome (\<lambda>(r, st, lg). (r, st)) (TensorDebugInfo True True hf) =
         map_Outcome (\<lambda>(r, st, lg). (r, st)) (TensorDebugInfo True True hs)"
    by (auto simp: TensorDebugInfo_def VlogPaddedShape_def split_beta
        split: if_splits Outcome.splits)
next
  from assms show "\<forall>c st lg. TensorDebugInfo True True hs = Returns (Some c, st, lg) \<longrightarrow>
            st = OK \<and> TensorDebugInfo True True hf = Returns (Some c, OK, [])"
    by (auto simp: TensorDebugInfo_def VlogPaddedShape_def split_beta
        split: if_splits Outcome.splits dest: XlaTensorDebugInfo_coupling)
qed

theorem logging_noninterference_witness:
  "TensorDebugInfo True True (xla_handle (OK, Array 0 [2, 3, 4] [0, 1, 2]) (OK, 3)) =
     Returns (Some (TFE_TensorDebugInfo [4, 3, 2]), OK, [([4, 4, 4], Array 0 [2, 3, 4] [0, 1, 2])]) \<and>
   TensorDebugInfo True True
     (xla_handle (OK, Array 0 [2, 3, 4] [0, 1, 2]) (Error FAILED_PRECONDITION ''shape unknown'' None, - 1)) =
     Returns (Some (TFE_TensorDebugInfo [4, 3, 2]), OK, [])"
proof -
  let ?sh = "Array 0 [2, 3, 4] [0, 1, 2]"
  let ?hs = "xla_handle (OK, ?sh) (OK, 3)"
  let ?hf = "xla_handle (OK, ?sh) (Error FAILED_PRECONDITION ''shape unknown'' None, - 1)"
  have f: "TensorShapeAsVector ?hf = Returns ([], Error FAILED_PRECONDITION ''shape unknown'' None)"
    by (simp add: xla_handle_def TensorShapeAsVector_def)
  have s: "TensorShapeAsVector ?hs = Returns ([4, 4, 4], OK)"
    by (simp add: xla_handle_def TensorShapeAsVector_def TensorShapeAsVector_loop.simps)
  have x: "XlaTensorDebugInfo ?sh = Returns (Some (TFE_TensorDebugInfo [4, 3, 2]), OK)"
    by (simp add: XlaTensorDebugInfo_def NormalizeTuple_def OnDeviceDims_def dimensions_size_def int_of_size_def
        dev_dims_loop.simps int_of_int64_def entry_at_def)
  have r: "TensorDebugInfo True True ?hs =
     Returns (Some (TFE_TensorDebugInfo [4, 3, 2]), OK, [([4, 4, 4], ?sh)])"
    using s x by (simp add: TensorDebugInfo_def VlogPaddedShape_def xla_handle_def)
  have "Tensor ?hf = Tensor ?hs" "device ?hf = device ?hs" "device ?hs = XlaDevice (\<lambda>t. (OK, ?sh))"
    by (simp_all add: xla_handle_def)
  from logging_noninterference [OF this f _ s] r show ?thesis
    by simp
qed

subsection \<open>Failures\<close>

text \<open>
  C6. Every stage that fails ends the function with the null pointer and the failing
  status: the resolution of the tensor; on the default path, the rank lookup and the
  first failing dimension lookup; on an XLA device, the padded-shape function; and,
  after it, the checks of a tuple shape (when the lookup for the log line, if made,
  returns). In general a status that is not OK never comes with a container.
\<close>

theorem failure_produces_no_container:
  "(\<not> ok (fst (Tensor h)) \<longrightarrow>
      TensorDebugInfo use_xla vlog_is_on h = Returns (None, fst (Tensor h), [])) \<and>
   (ok (fst (Tensor h)) \<and> (\<not> use_xla \<or> device h = OtherDevice) \<and>
    \<not> ok (fst (NumDims h)) \<longrightarrow>
      TensorDebugInfo use_xla vlog_is_on h = Returns (None, fst (NumDims h), [])) \<and>
   (ok (fst (Tensor h)) \<and> (\<not> use_xla \<or> device h = OtherDevice) \<and>
    ok (fst (NumDims h)) \<and> 0 \<le> k \<and> k < snd (NumDims h) \<and>
    (\<forall>j. 0 \<le> j \<and> j < k \<longrightarrow> ok (fst (Dim h j))) \<and> \<not> ok (fst (Dim h k)) \<longrightarrow>
      TensorDebugInfo use_xla vlog_is_on h = Returns (None, fst (Dim h k), [])) \<and>
   (ok (fst (Tensor h)) \<and> device h = XlaDevice fn \<and>
    fn (snd (Tensor h)) = (st, sh) \<and> \<not> ok st \<longrightarrow>
      TensorDebugInfo True vlog_is_on h = Returns (None, st, [])) \<and>
   (ok (fst (Tensor h)) \<and> device h = XlaDevice fn \<and>
    fn (snd (Tensor h)) = (st, sh) \<and> ok st \<and>
    NormalizeTuple sh = Inl e \<and>
    (vlog_is_on \<longrightarrow> (\<exists>r. TensorShapeAsVector h = Returns r)) \<longrightarrow>
      \<not> ok e \<and> (\<exists>lg. TensorDebugInfo True vlog_is_on h = Returns (None, e, lg))) \<and>
   (TensorDebugInfo use_xla vlog_is_on h = Returns (r, st, lg) \<and> \<not> ok st \<longrightarrow> r = None)"
proof (intro conjI impI)
  assume "\<not> ok (fst (Tensor h))"
  then show "TensorDebugInfo use_xla vlog_is_on h = Returns (None, fst (Tensor h), [])"
    by (simp add: TensorDebugInfo_def split_beta)
next
  assume a: "ok (fst (Tensor h)) \<and> (\<not> use_xla \<or> device h = OtherDevice) \<and>
    \<not> ok (fst (NumDims h))"
  then have "TensorShapeAsVector h = Returns ([], fst (NumDims h))"
    by (simp add: TensorShapeAsVector_rank_fails)
  with a show "TensorDebugInfo use_xla vlog_is_on h = Returns (None, fst (NumDims h), [])"
    by (simp add: TensorDebugInfo_default_path)
next
  assume a: "ok (fst (Tensor h)) \<and> (\<not> use_xla \<or> device h = OtherDevice) \<and>
    ok (fst (NumDims h)) \<and> 0 \<le> k \<and> k < snd (NumDims h) \<and>
    (\<forall>j. 0 \<le> j \<and> j < k \<longrightarrow> ok (fst (Dim h j))) \<and> \<not> ok (fst (Dim h k))"
  then have "TensorShapeAsVector h =
      Returns (map (\<lambda>j. snd (Dim h j)) [0..k - 1], fst (Dim h k))"
    by (intro TensorShapeAsVector_dim_fails) simp_all
  with a show "TensorDebugInfo use_xla vlog_is_on h = Returns (None, fst (Dim h k), [])"
    by (simp add: TensorDebugInfo_default_path)
next
  assume "ok (fst (Tensor h)) \<and> device h = XlaDevice fn \<and>
    fn (snd (Tensor h)) = (st, sh) \<and> \<not> ok st"
  then show "TensorDebugInfo True vlog_is_on h = Returns (None, st, [])"
    by (simp add: TensorDebugInfo_def split_beta)
next
  assume a: "ok (fst (Tensor h)) \<and> device h = XlaDevice fn \<and>
    fn (snd (Tensor h)) = (st, sh) \<and> ok st \<and>
    NormalizeTuple sh = Inl e \<and>
    (vlog_is_on \<longrightarrow> (\<exists>r. TensorShapeAsVector h = Returns r))"
  then have "NormalizeTuple sh = Inl e" by simp
  then show "\<not> ok e" by (rule NormalizeTuple_Inl)
  from a have "\<exists>lg. TensorDebugInfo True vlog_is_on h =
           (case XlaTensorDebugInfo sh of
              Faults f \<Rightarrow> Faults f
            | Returns (r, st') \<Rightarrow> Returns (r, st', lg))"
    by (intro TensorDebugInfo_xla_path [where st = st and fn = fn]) simp_all
  with a show "\<exists>lg. TensorDebugInfo True vlog_is_on h = Returns (None, e, lg)"
    by (simp add: XlaTensorDebugInfo_def)
next
  assume "TensorDebugInfo use_xla vlog_is_on h = Returns (r, st, lg) \<and> \<not> ok st"
  then show "r = None"
    by (auto simp: TensorDebugInfo_def split_beta ok_iff
        split: if_splits option.splits Outcome.splits dest: XlaTensorDebugInfo_coupling)
qed

theorem failure_produces_no_container_witness:
  "TensorDebugInfo True True unresolved_handle =
     Returns (None, Error INTERNAL ''tensor not resolved'' None, []) \<and>
   TensorDebugInfo True True rank_failing_handle =
     Returns (None, Error FAILED_PRECONDITION ''shape unknown'' None, []) \<and>
   TensorDebugInfo False False dim_failing_handle =
     Returns (None, Error UNAVAILABLE ''dimension unknown'' None, []) \<and>
   TensorDebugInfo True True (xla_handle (Error UNAVAILABLE ''not on device'' None, Tuple []) (OK, 1)) =
     Returns (None, Error UNAVAILABLE ''not on device'' None, []) \<and>
   (\<exists>lg. TensorDebugInfo True True
      (xla_handle (OK, Tuple [Array 0 [2, 3] [1, 0], Array 0 [3, 2] [1, 0]]) (OK, 1)) =
     Returns (None, Error INVALID_ARGUMENT
        ''Subshapes of XlaTensors should be the same. Shape: ''
        (Some (Tuple [Array 0 [2, 3] [1, 0], Array 0 [3, 2] [1, 0]])), lg))"
proof -
  let ?u = "Tuple [Array 0 [2, 3] [1, 0], Array 0 [3, 2] [1, 0]]"
  let ?e = "Error INVALID_ARGUMENT ''Subshapes of XlaTensors should be the same. Shape: '' (Some ?u)"
  let ?n = "Error UNAVAILABLE ''not on device'' None"
  have t3: "TensorShapeAsVector (xla_handle (OK, ?u) (OK, 1)) = Returns ([4], OK)"
    by (simp add: xla_handle_def TensorShapeAsVector_def TensorShapeAsVector_loop.simps)
  have n: "NormalizeTuple ?u = Inl ?e"
    by (simp add: NormalizeTuple_def TupleElementCount_def GetTupleElementShape_def Equal_def
        InvalidArgument_def)
  from failure_produces_no_container [where h = unresolved_handle and use_xla = True
         and vlog_is_on = True]
  have c1: "TensorDebugInfo True True unresolved_handle =
     Returns (None, Error INTERNAL ''tensor not resolved'' None, [])"
    by (simp add: unresolved_handle_def)
  from failure_produces_no_container [where h = rank_failing_handle and use_xla = True
         and vlog_is_on = True]
  have c2: "TensorDebugInfo True True rank_failing_handle =
     Returns (None, Error FAILED_PRECONDITION ''shape unknown'' None, [])"
    by (simp add: rank_failing_handle_def)
  from failure_produces_no_container [where h = dim_failing_handle and use_xla = False
         and vlog_is_on = False and k = 1]
  have c3: "TensorDebugInfo False False dim_failing_handle =
     Returns (None, Error UNAVAILABLE ''dimension unknown'' None, [])"
    by (simp add: dim_failing_handle_def)
  from failure_produces_no_container [where h = "xla_handle (?n, Tuple []) (OK, 1)"
         and vlog_is_on = True and fn = "\<lambda>t. (?n, Tuple [])" and st = ?n and sh = "Tuple []"]
  have c4: "TensorDebugInfo True True (xla_handle (?n, Tuple []) (OK, 1)) = Returns (None, ?n, [])"
    by (simp add: xla_handle_def)
  from failure_produces_no_container [where h = "xla_handle (OK, ?u) (OK, 1)"
         and vlog_is_on = True and fn = "\<lambda>t. (OK, ?u)" and st = OK and sh = ?u and e = ?e] t3 n
  have c5: "\<exists>lg. TensorDebugInfo True True (xla_handle (OK, ?u) (OK, 1)) = Returns (None, ?e, lg)"
    by (simp add: xla_handle_def)
  from c1 c2 c3 c4 c5 show ?thesis by blast
qed

text \<open>
  C9. Whenever the function returns, the pointer is not null exactly when the status it
  leaves is OK. In particular the XLA branch (lines 94-143) hands out a container only
  with the status OK that line 142 assigns, whatever the status was before.
\<close>

theorem result_status_coupling:
  "(TensorDebugInfo use_xla vlog_is_on h = Returns (r, st, lg) \<longrightarrow> (r \<noteq> None) = (st = OK)) \<and>
   (XlaTensorDebugInfo sh = Returns (Some c, st') \<longrightarrow> st' = OK)"
proof (intro conjI impI)
  assume "TensorDebugInfo use_xla vlog_is_on h = Returns (r, st, lg)"
  then show "(r \<noteq> None) = (st = OK)"
    by (auto simp: TensorDebugInfo_def split_beta ok_iff
        split: if_splits option.splits Outcome.splits dest: XlaTensorDebugInfo_coupling)
next
  assume "XlaTensorDebugInfo sh = Returns (Some c, st')"
  from XlaTensorDebugInfo_coupling [OF this] show "st' = OK" by simp
qed

theorem result_status_coupling_witness:
  "TensorDebugInfo True True host_handle = Returns (Some (TFE_TensorDebugInfo [2, 3, 4]), OK, []) \<and>
   (Some (TFE_TensorDebugInfo [2, 3, 4]) \<noteq> None) = (OK = OK) \<and>
   TensorDebugInfo True True unresolved_handle =
     Returns (None, Error INTERNAL ''tensor not resolved'' None, []) \<and>
   ((None :: TFE_TensorDebugInfo option) \<noteq> None) = (Error INTERNAL ''tensor not resolved'' None = OK)"
proof -
  have a: "TensorDebugInfo True True host_handle =
      Returns (Some (TFE_TensorDebugInfo [2, 3, 4]), OK, [])"
    by (simp add: TensorDebugInfo_def TensorShapeAsVector_def TensorShapeAsVector_loop.simps
        host_handle_def)
  have b: "TensorDebugInfo True True unresolved_handle =
      Returns (None, Error INTERNAL ''tensor not resolved'' None, [])"
    by (simp add: TensorDebugInfo_def unresolved_handle_def)
  from result_status_coupling [where h = host_handle and use_xla = True and vlog_is_on = True
         and r = "Some (TFE_TensorDebugInfo [2, 3, 4])" and st = OK and lg = "[]"]
       result_status_coupling [where h = unresolved_handle and use_xla = True and vlog_is_on = True
         and r = None and st = "Error INTERNAL ''tensor not resolved'' None" and lg = "[]"]
       a b
  show ?thesis by simp
qed

subsection \<open>Ranks 1 and 0, and the indices of the reordering loop\<close>

text \<open>
  C7. For an array shape with the single dimension size \<open>d\<close>, lines 130-141 give
  \<open>[d]\<close> for every minor-to-major list \<open>mm\<close>, the empty one included: the list is not
  read. The XLA branch then returns the container of \<open>[d]\<close> with status OK, and so does
  the whole function on a handle whose XLA device reports such a padded shape (when the
  lookup for the log line, if made, returns).
\<close>

theorem rank1_fast_path:
  "OnDeviceDims (Array et [d] mm) = Returns [d] \<and>
   XlaTensorDebugInfo (Array et [d] mm) = Returns (Some (TFE_TensorDebugInfo [d]), OK) \<and>
   (ok (fst (Tensor h)) \<and> device h = XlaDevice fn \<and>
    fn (snd (Tensor h)) = (OK, Array et [d] mm) \<and>
    (vlog_is_on \<longrightarrow> (\<exists>r. TensorShapeAsVector h = Returns r)) \<longrightarrow>
      (\<exists>lg. TensorDebugInfo True vlog_is_on h =
              Returns (Some (TFE_TensorDebugInfo [d]), OK, lg)))"
proof (intro conjI impI)
  show "OnDeviceDims (Array et [d] mm) = Returns [d]"
    by (simp add: OnDeviceDims_def dimensions_size_def int_of_size_def entry_at_def)
  then show x: "XlaTensorDebugInfo (Array et [d] mm) = Returns (Some (TFE_TensorDebugInfo [d]), OK)"
    by (simp add: XlaTensorDebugInfo_def NormalizeTuple_Array)
  assume "ok (fst (Tensor h)) \<and> device h = XlaDevice fn \<and>
    fn (snd (Tensor h)) = (OK, Array et [d] mm) \<and>
    (vlog_is_on \<longrightarrow> (\<exists>r. TensorShapeAsVector h = Returns r))"
  then have "\<exists>lg. TensorDebugInfo True vlog_is_on h =
           (case XlaTensorDebugInfo (Array et [d] mm) of
              Faults f \<Rightarrow> Faults f
            | Returns (r, st') \<Rightarrow> Returns (r, st', lg))"
    by (intro TensorDebugInfo_xla_path [where st = OK and fn = fn]) simp_all
  with x show "\<exists>lg. TensorDebugInfo True vlog_is_on h =
              Returns (Some (TFE_TensorDebugInfo [d]), OK, lg)"
    by simp
qed

theorem rank1_fast_path_witness:
  "OnDeviceDims (Array 0 [7] []) = Returns [7] \<and>
   OnDeviceDims (Array 0 [7] [5, 5]) = Returns [7] \<and>
   (\<exists>lg. TensorDebugInfo True True (xla_handle (OK, Array 0 [7] []) (OK, 1)) =
      Returns (Some (TFE_TensorDebugInfo [7]), OK, lg))"
proof -
  let ?h = "xla_handle (OK, Array 0 [7] []) (OK, 1)"
  have "TensorShapeAsVector ?h = Returns ([4], OK)"
    by (simp add: xla_handle_def TensorShapeAsVector_def TensorShapeAsVector_loop.simps)
  with rank1_fast_path [where et = 0 and d = 7 and mm = "[]" and h = ?h
         and fn = "\<lambda>t. (OK, Array 0 [7] [])" and vlog_is_on = True]
       rank1_fast_path [where et = 0 and d = 7 and mm = "[5, 5]" and h = ?h
         and fn = "\<lambda>t. (OK, Array 0 [7] [])" and vlog_is_on = True]
  show ?thesis
    by (simp add: xla_handle_def)
qed

text \<open>
  C8. For an array shape without dimensions, lines 130-141 give the empty vector: the
  loop starts at \<open>i = -1\<close> and does not run. The XLA branch returns the container of the
  empty vector with status OK, and so does the whole function on a handle whose XLA
  device reports such a padded shape (when the lookup for the log line, if made,
  returns).
\<close>

theorem rank0_empty:
  "OnDeviceDims (Array et [] mm) = Returns [] \<and>
   XlaTensorDebugInfo (Array et [] mm) = Returns (Some (TFE_TensorDebugInfo []), OK) \<and>
   (ok (fst (Tensor h)) \<and> device h = XlaDevice fn \<and>
    fn (snd (Tensor h)) = (OK, Array et [] mm) \<and>
    (vlog_is_on \<longrightarrow> (\<exists>r. TensorShapeAsVector h = Returns r)) \<longrightarrow>
      (\<exists>lg. TensorDebugInfo True vlog_is_on h =
              Returns (Some (TFE_TensorDebugInfo []), OK, lg)))"
proof (intro conjI impI)
  show "OnDeviceDims (Array et [] mm) = Returns []"
    by (simp add: OnDeviceDims_def dimensions_size_def int_of_size_def dev_dims_loop.simps int_of_int64_def)
  then show x: "XlaTensorDebugInfo (Array et [] mm) = Returns (Some (TFE_TensorDebugInfo []), OK)"
    by (simp add: XlaTensorDebugInfo_def NormalizeTuple_Array)
  assume "ok (fst (Tensor h)) \<and> device h = XlaDevice fn \<and>
    fn (snd (Tensor h)) = (OK, Array et [] mm) \<and>
    (vlog_is_on \<longrightarrow> (\<exists>r. TensorShapeAsVector h = Returns r))"
  then have "\<exists>lg. TensorDebugInfo True vlog_is_on h =
           (case XlaTensorDebugInfo (Array et [] mm) of
              Faults f \<Rightarrow> Faults f
            | Returns (r, st') \<Rightarrow> Returns (r, st', lg))"
    by (intro TensorDebugInfo_xla_path [where st = OK and fn = fn]) simp_all
  with x show "\<exists>lg. TensorDebugInfo True vlog_is_on h =
              Returns (Some (TFE_TensorDebugInfo []), OK, lg)"
    by simp
qed

theorem rank0_empty_witness:
  "OnDeviceDims (Array 0 [] []) = Returns [] \<and>
   (\<exists>lg. TensorDebugInfo True True (xla_handle (OK, Array 0 [] []) (OK, 0)) =
      Returns (Some (TFE_TensorDebugInfo []), OK, lg))"
proof -
  let ?h = "xla_handle (OK, Array 0 [] []) (OK, 0)"
  have "TensorShapeAsVector ?h = Returns ([], OK)"
    by (simp add: xla_handle_def TensorShapeAsVector_def TensorShapeAsVector_loop.simps)
  with rank0_empty [where et = 0 and mm = "[]" and h = ?h
         and fn = "\<lambda>t. (OK, Array 0 [] [])" and vlog_is_on = True]
  show ?thesis
    by (simp add: xla_handle_def)
qed

text \<open>
  C10. The loop of lines 137-140 reads \<^verbatim>\<open>minor_to_major(i)\<close> and then the dimension at
  that index without comparing either index with a size. For an array shape of rank
  \<open>R > 1\<close> whose minor-to-major list is a permutation of \<open>0, \<dots>, R - 1\<close>, every
  \<open>i\<close> from \<open>0\<close> to \<open>R - 1\<close> has an entry \<^verbatim>\<open>minor_to_major(i)\<close>, that entry lies in
  \<open>0, \<dots>, R - 1\<close> and is the index that \<^verbatim>\<open>dimensions(int)\<close> receives, the dimension
  at it exists, and the loop ends with a vector: no read is out of range. Without the
  precondition a read can be out of range, as for the layout \<open>[0, 5]\<close> of a shape of
  rank 2.
\<close>

theorem reorder_index_safety:
  "(1 < dimensions_size sh \<and> minor_to_major_is_permutation sh \<longrightarrow>
      (\<forall>i. 0 \<le> i \<and> i < dimensions_size sh \<longrightarrow>
         (\<exists>dim_index d. entry_at (minor_to_major sh) i = Returns dim_index \<and>
            0 \<le> sint dim_index \<and> sint dim_index < dimensions_size sh \<and>
            int_of_int64 dim_index = sint dim_index \<and>
            entry_at (dimensions sh) (sint dim_index) = Returns d)) \<and>
      (\<exists>out. OnDeviceDims sh = Returns out)) \<and>
   OnDeviceDims (Array et [2, 3] [0, 5]) = Faults OutOfRange"
proof (intro conjI allI impI)
  assume a: "1 < dimensions_size sh \<and> minor_to_major_is_permutation sh"
  then have perm: "minor_to_major_is_permutation sh" by simp
  have len: "length (minor_to_major sh) = nat (dimensions_size sh)"
    using perm by (rule permutation_length)
  fix i :: int
  assume i: "0 \<le> i \<and> i < dimensions_size sh"
  then have j: "nat i < length (minor_to_major sh)"
    by (simp add: len nat_less_iff)
  from permutation_in_range [OF perm j] permutation_narrow [OF perm j]
    dimensions_size_le [of sh] i
  show "\<exists>dim_index d. entry_at (minor_to_major sh) i = Returns dim_index \<and>
            0 \<le> sint dim_index \<and> sint dim_index < dimensions_size sh \<and>
            int_of_int64 dim_index = sint dim_index \<and>
            entry_at (dimensions sh) (sint dim_index) = Returns d"
    by (simp add: entry_at_def len)
next
  assume a: "1 < dimensions_size sh \<and> minor_to_major_is_permutation sh"
  then have perm: "minor_to_major_is_permutation sh" by simp
  from permutation_loop_returns [OF perm]
  obtain out where "dev_dims_loop sh (dimensions_size sh - 1) [] = Returns out"
    by blast
  with a show "\<exists>out. OnDeviceDims sh = Returns out"
    by (simp add: OnDeviceDims_def)
next
  show "OnDeviceDims (Array et [2, 3] [0, 5]) = Faults OutOfRange"
    by (simp add: OnDeviceDims_def dimensions_size_def int_of_size_def dev_dims_loop.simps
        int_of_int64_def entry_at_def)
qed

theorem reorder_index_safety_witness:
  "1 < dimensions_size (Array 0 [8, 128] [1, 0]) \<and>
   minor_to_major_is_permutation (Array 0 [8, 128] [1, 0]) \<and>
   (\<exists>dim_index d. entry_at (minor_to_major (Array 0 [8, 128] [1, 0])) 1 = Returns dim_index \<and>
      0 \<le> sint dim_index \<and> sint dim_index < 2 \<and>
      entry_at (dimensions (Array 0 [8, 128] [1, 0])) (sint dim_index) = Returns d) \<and>
   (\<exists>out. OnDeviceDims (Array 0 [8, 128] [1, 0]) = Returns out)"
proof -
  have d: "1 < dimensions_size (Array 0 [8, 128] [1, 0])"
    by (simp add: dimensions_size_def int_of_size_def)
  have p: "minor_to_major_is_permutation (Array 0 [8, 128] [1, 0])"
    by (simp add: minor_to_major_is_permutation_def dimensions_size_def int_of_size_def upt_rec)
  have s: "dimensions_size (Array 0 [8, 128] [1, 0]) = 2"
    by (simp add: dimensions_size_def int_of_size_def)
  from reorder_index_safety [where sh = "Array 0 [8, 128] [1, 0]"] d p
  have all: "\<forall>i. 0 \<le> i \<and> i < dimensions_size (Array 0 [8, 128] [1, 0]) \<longrightarrow>
         (\<exists>dim_index d. entry_at (minor_to_major (Array 0 [8, 128] [1, 0])) i = Returns dim_index \<and>
            0 \<le> sint dim_index \<and> sint dim_index < dimensions_size (Array 0 [8, 128] [1, 0]) \<and>
            int_of_int64 dim_index = sint dim_index \<and>
            entry_at (dimensions (Array 0 [8, 128] [1, 0])) (sint dim_index) = Returns d)"
    and ret: "\<exists>out. OnDeviceDims (Array 0 [8, 128] [1, 0]) = Returns out"
    by blast+
  from all [rule_format, of 1] s
  have "\<exists>dim_index d. entry_at (minor_to_major (Array 0 [8, 128] [1, 0])) 1 = Returns dim_index \<and>
      0 \<le> sint dim_index \<and> sint dim_index < 2 \<and>
      entry_at (dimensions (Array 0 [8, 128] [1, 0])) (sint dim_index) = Returns d"
    by auto
  with d p ret show ?thesis by blast
qed

end
